theory Spec2Isabelle
  imports Main
begin

section \<open>Native values of the embedded runtime\<close>

text \<open>
  The bridge in \<^verbatim>\<open>src/xinterpreter.cpp\<close> handles the runtime's values through the
  C interface only: character, integer and logical vectors and generic vectors (lists),
  each with an optional class attribute. The first argument of a vector constructor is the
  class attribute (empty when the object has none); a character vector holds the bytes of
  its elements (what \<^verbatim>\<open>CHAR(STRING_ELT(x, i))\<close> reads).
\<close>

datatype SEXP =
    NilValue
  | STRSXP "string list" "string list"
  | INTSXP "string list" "int list"
  | LGLSXP "string list" "int list"
  | VECSXP "string list" "SEXP list"

text \<open>
  What can end a native call early: an error raised by the runtime (a non-local jump),
  an exception thrown by \<^verbatim>\<open>nl::json::parse\<close>, and an element access that the
  object's type or length does not allow (an error where the runtime checks it,
  undefined in C where it does not).
\<close>

datatype exn = R_error | json_parse_error | invalid_access

fun class_attr :: "SEXP \<Rightarrow> string list" where
  "class_attr NilValue = []"
| "class_attr (STRSXP c xs) = c"
| "class_attr (INTSXP c xs) = c"
| "class_attr (LGLSXP c xs) = c"
| "class_attr (VECSXP c xs) = c"

definition Rf_inherits :: "SEXP \<Rightarrow> string \<Rightarrow> bool" where
  "Rf_inherits s name = (name \<in> set (class_attr s))"

fun XLENGTH :: "SEXP \<Rightarrow> nat" where
  "XLENGTH NilValue = 0"
| "XLENGTH (STRSXP c xs) = length xs"
| "XLENGTH (INTSXP c xs) = length xs"
| "XLENGTH (LGLSXP c xs) = length xs"
| "XLENGTH (VECSXP c xs) = length xs"

fun VECTOR_ELT :: "SEXP \<Rightarrow> nat \<Rightarrow> exn + SEXP" where
  "VECTOR_ELT (VECSXP c xs) i = (if i < length xs then Inr (xs ! i) else Inl invalid_access)"
| "VECTOR_ELT _ i = Inl invalid_access"

fun STRING_ELT :: "SEXP \<Rightarrow> nat \<Rightarrow> exn + string" where
  "STRING_ELT (STRSXP c xs) i = (if i < length xs then Inr (xs ! i) else Inl invalid_access)"
| "STRING_ELT _ i = Inl invalid_access"

fun INTEGER_ELT :: "SEXP \<Rightarrow> nat \<Rightarrow> exn + int" where
  "INTEGER_ELT (INTSXP c xs) i = (if i < length xs then Inr (xs ! i) else Inl invalid_access)"
| "INTEGER_ELT _ i = Inl invalid_access"

fun LOGICAL_ELT :: "SEXP \<Rightarrow> nat \<Rightarrow> exn + int" where
  "LOGICAL_ELT (LGLSXP c xs) i = (if i < length xs then Inr (xs ! i) else Inl invalid_access)"
| "LOGICAL_ELT _ i = Inl invalid_access"

fun SET_STRING_ELT :: "SEXP \<Rightarrow> nat \<Rightarrow> string \<Rightarrow> exn + SEXP" where
  "SET_STRING_ELT (STRSXP c xs) i v =
     (if i < length xs then Inr (STRSXP c (xs[i := v])) else Inl invalid_access)"
| "SET_STRING_ELT _ i v = Inl invalid_access"

definition Rf_mkString :: "string \<Rightarrow> SEXP" where
  "Rf_mkString s = STRSXP [] [s]"

definition Rf_ScalarInteger :: "int \<Rightarrow> SEXP" where
  "Rf_ScalarInteger i = INTSXP [] [i]"

definition Rf_ScalarLogical :: "bool \<Rightarrow> SEXP" where
  "Rf_ScalarLogical b = LGLSXP [] [if b then 1 else 0]"

text \<open>
  A call object as \<^verbatim>\<open>r_call\<close> builds it: the function's symbol and the arguments,
  each with its tag (empty when untagged). \<^verbatim>\<open>SET_TAG(CDDR(call), sym)\<close> tags the second
  argument.
\<close>

datatype LANGSXP = LANGSXP string "(string \<times> SEXP) list"

definition r_call :: "string \<Rightarrow> SEXP list \<Rightarrow> LANGSXP" where
  "r_call f args = LANGSXP f (map (\<lambda>a. ([], a)) args)"

fun SET_TAG_CDDR :: "LANGSXP \<Rightarrow> string \<Rightarrow> exn + LANGSXP" where
  "SET_TAG_CDDR (LANGSXP f (a # (t, v) # rest)) tag = Inr (LANGSXP f (a # (tag, v) # rest))"
| "SET_TAG_CDDR _ tag = Inl invalid_access"

text \<open>
  A call into the runtime that the bridge does not implement (evaluation of a call, the
  companion library's entry points, the parser) either returns or raises a runtime error.
\<close>

datatype 'a outcome = Returned 'a | Raised

section \<open>Protocol-side values\<close>

text \<open>
  \<^verbatim>\<open>nl::json\<close> values the bridge builds: the empty object (the default payload of a
  negative inspection reply), an array of strings, and a document parsed from text. The
  parser is a parameter \<open>parse\<close> of the handlers: \<open>None\<close> where \<^verbatim>\<open>nl::json::parse\<close>
  throws.
\<close>

datatype 'j json = json_object | json_strings "string list" | json_parsed 'j

text \<open>The replies, named after the \<^verbatim>\<open>xeus::create_..._reply\<close> helper that builds each.\<close>

datatype 'j reply =
    create_error_reply string string "string list"
  | create_successful_reply
  | create_is_complete_reply string string
  | create_complete_reply "'j json" int int
  | create_inspect_reply bool "'j json"

text \<open>What the bridge sends out, in order: stream and execution events, and replies.\<close>

datatype 'j event =
    Stream string string
  | Execution_error string string "string list"
  | Execution_result int "'j json" "'j json"
  | Reply "'j reply"

fun replies :: "'j event list \<Rightarrow> 'j reply list" where
  "replies [] = []"
| "replies (Reply r # es) = r # replies es"
| "replies (e # es) = replies es"

fun execution_results :: "'j event list \<Rightarrow> 'j event list" where
  "execution_results [] = []"
| "execution_results (Execution_result n d m # es) = Execution_result n d m # execution_results es"
| "execution_results (e # es) = execution_results es"

record execute_request_config =
  silent :: bool
  store_history :: bool
  allow_stdin :: bool

text \<open>
  The state the bridge acts on: the depth of the runtime's protection stack
  (\<^verbatim>\<open>PROTECT\<close> pushes one entry, \<^verbatim>\<open>UNPROTECT(n)\<close> pops \<open>n\<close>: the depth is
  the C \<^verbatim>\<open>int\<close> \<^verbatim>\<open>R_PPStackTop\<close>, from which \<^verbatim>\<open>UNPROTECT\<close> subtracts \<open>n\<close>
  without comparing it to the entries present), everything sent out so far in the order
  sent (the reply callback \<^verbatim>\<open>cb\<close> included), the capture stream of the interpreter
  object and the stored history.
\<close>

record 'j interpreter =
  R_PPStackTop :: int
  published :: "'j event list"
  capture_stream :: string
  history :: "(int \<times> int \<times> string) list"

section \<open>Calls that may raise\<close>

type_synonym ('s, 'a) prog = "'s \<Rightarrow> (exn + 'a) \<times> 's"

definition returnE :: "'a \<Rightarrow> ('s, 'a) prog" where
  "returnE a s = (Inr a, s)"

definition throwE :: "exn \<Rightarrow> ('s, 'a) prog" where
  "throwE e s = (Inl e, s)"

definition bindE :: "('s, 'a) prog \<Rightarrow> ('a \<Rightarrow> ('s, 'b) prog) \<Rightarrow> ('s, 'b) prog" where
  "bindE m f s = (case m s of (Inl e, s') \<Rightarrow> (Inl e, s') | (Inr a, s') \<Rightarrow> f a s')"

definition liftE :: "exn + 'a \<Rightarrow> ('s, 'a) prog" where
  "liftE r s = (r, s)"

definition PROTECT :: "'a \<Rightarrow> ('j interpreter, 'a) prog" where
  "PROTECT x s = (Inr x, s\<lparr>R_PPStackTop := R_PPStackTop s + 1\<rparr>)"

definition UNPROTECT :: "int \<Rightarrow> ('j interpreter, unit) prog" where
  "UNPROTECT n s = (Inr (), s\<lparr>R_PPStackTop := R_PPStackTop s - n\<rparr>)"

definition call_native :: "'a outcome \<Rightarrow> ('s, 'a) prog" where
  "call_native r = (case r of Returned v \<Rightarrow> returnE v | Raised \<Rightarrow> throwE R_error)"

definition invoke_hera_fn ::
  "(string \<Rightarrow> SEXP list \<Rightarrow> SEXP outcome) \<Rightarrow> string \<Rightarrow> SEXP list \<Rightarrow> ('s, SEXP) prog" where
  "invoke_hera_fn hera f args = call_native (hera f args)"

definition nl_json_parse :: "(string \<Rightarrow> 'j option) \<Rightarrow> string \<Rightarrow> ('s, 'j json) prog" where
  "nl_json_parse parse s =
     (case parse s of None \<Rightarrow> throwE json_parse_error | Some d \<Rightarrow> returnE (json_parsed d))"

definition publish :: "'j event \<Rightarrow> ('j interpreter, unit) prog" where
  "publish e s = (Inr (), s\<lparr>published := published s @ [e]\<rparr>)"

definition publish_stream :: "string \<Rightarrow> string \<Rightarrow> ('j interpreter, unit) prog" where
  "publish_stream name text = publish (Stream name text)"

definition publish_execution_error ::
  "string \<Rightarrow> string \<Rightarrow> string list \<Rightarrow> ('j interpreter, unit) prog" where
  "publish_execution_error evalue ename trace_back =
     publish (Execution_error evalue ename trace_back)"

definition publish_execution_result ::
  "int \<Rightarrow> 'j json \<Rightarrow> 'j json \<Rightarrow> ('j interpreter, unit) prog" where
  "publish_execution_result execution_count data metadata =
     publish (Execution_result execution_count data metadata)"

definition cb :: "'j reply \<Rightarrow> ('j interpreter, unit) prog" where
  "cb r = publish (Reply r)"

definition store_inputs :: "int \<Rightarrow> int \<Rightarrow> string \<Rightarrow> ('j interpreter, unit) prog" where
  "store_inputs session line code s = (Inr (), s\<lparr>history := history s @ [(session, line, code)]\<rparr>)"

section \<open>Console Redirector\<close>

text \<open>
  \<^verbatim>\<open>std::string output(buf, buflen)\<close> copies exactly \<open>buflen\<close> bytes from \<open>buf\<close>;
  \<open>buf\<close> is the memory readable at the pointer, which the runtime guarantees to hold at
  least \<open>buflen\<close> bytes.
\<close>

definition WriteConsoleEx :: "string \<Rightarrow> nat \<Rightarrow> int \<Rightarrow> 'j interpreter \<Rightarrow> 'j interpreter" where
  "WriteConsoleEx buf buflen otype s =
     (let output = take buflen buf in
      if otype = 1 then snd (publish_stream ''stderr'' output s)
      else snd (publish_stream ''stdout'' output s))"

definition capture_WriteConsoleEx ::
  "string \<Rightarrow> nat \<Rightarrow> int \<Rightarrow> 'j interpreter \<Rightarrow> 'j interpreter" where
  "capture_WriteConsoleEx buf buflen otype s =
     (let output = take buflen buf in
      if otype = 1 then s
      else s\<lparr>capture_stream := capture_stream s @ output\<rparr>)"

section \<open>Interactive Input Bridge\<close>

text \<open>
  \<^verbatim>\<open>std::size_t(length)\<close> converts a C \<^verbatim>\<open>int\<close> to a 64-bit unsigned value. The
  buffer is the memory at the caller's pointer, indexed from it; the caller owns the
  indices below \<open>len\<close>. \<open>input\<close> is \<^verbatim>\<open>xeus::blocking_input_request\<close>.
\<close>

definition size_t_of_int :: "int \<Rightarrow> nat" where
  "size_t_of_int n = nat (n mod 2 ^ 64)"

definition std_copy :: "string \<Rightarrow> nat \<Rightarrow> (nat \<Rightarrow> char) \<Rightarrow> (nat \<Rightarrow> char)" where
  "std_copy src n dest = (\<lambda>i. if i < n then src ! i else dest i)"

definition ReadConsole ::
  "(string \<Rightarrow> bool \<Rightarrow> string) \<Rightarrow> string \<Rightarrow> (nat \<Rightarrow> char) \<Rightarrow> int \<Rightarrow> int \<Rightarrow> (nat \<Rightarrow> char) \<times> int" where
  "ReadConsole input prompt buffer len addtohistory =
     (let res = input prompt False;
          size = min (length res) (size_t_of_int len);
          buffer1 = std_copy res size buffer;
          buffer2 = buffer1(size := CHR 0x0A)
      in (buffer2, 1))"

section \<open>Request Bridge\<close>

subsection \<open>Execute\<close>

text \<open>
  Local variables keep the source's names; a native object that the source names with a
  trailing underscore (\<^verbatim>\<open>code_\<close>, \<^verbatim>\<open>trace_back_\<close>) has the suffix \<open>_sexp\<close> here.

  The loop of \<^verbatim>\<open>execute_request_impl\<close> that copies the native trace:
  \<^verbatim>\<open>for (i = 0; i < n; i++) trace_back.push_back(CHAR(STRING_ELT(trace_back_, i)))\<close>.
\<close>

function trace_back_loop :: "SEXP \<Rightarrow> nat \<Rightarrow> nat \<Rightarrow> string list \<Rightarrow> exn + string list" where
  "trace_back_loop trace_back_sexp i n trace_back =
     (if i < n then
        (case STRING_ELT trace_back_sexp i of
           Inl e \<Rightarrow> Inl e
         | Inr c \<Rightarrow> trace_back_loop trace_back_sexp (i + 1) n (trace_back @ [c]))
      else Inr trace_back)"
  by pat_completeness auto
termination
  by (relation "measure (\<lambda>(trace_back_sexp, i, n, trace_back). n - i)") auto

declare trace_back_loop.simps [simp del]

text \<open>The block run when the result inherits \<^verbatim>\<open>error_reply\<close> (lines 122 to 139).\<close>

definition execute_error_block :: "SEXP \<Rightarrow> ('j interpreter, unit) prog" where
  "execute_error_block result =
     bindE (liftE (VECTOR_ELT result 0)) (\<lambda>evalue_sexp.
     bindE (liftE (STRING_ELT evalue_sexp 0)) (\<lambda>evalue.
     bindE (liftE (VECTOR_ELT result 1)) (\<lambda>ename_sexp.
     bindE (liftE (STRING_ELT ename_sexp 0)) (\<lambda>ename.
     bindE (if XLENGTH result > 2 then
              bindE (liftE (VECTOR_ELT result 2)) (\<lambda>trace_back_sexp.
              liftE (trace_back_loop trace_back_sexp 0 (XLENGTH trace_back_sexp) []))
            else returnE []) (\<lambda>trace_back.
     bindE (publish_execution_error evalue ename trace_back) (\<lambda>_.
     bindE (UNPROTECT 3) (\<lambda>_.
     cb (create_error_reply evalue ename trace_back))))))))"

text \<open>The block run when the result inherits \<^verbatim>\<open>execution_result\<close> (lines 141 to 147).\<close>

definition execute_result_block ::
  "(string \<Rightarrow> 'j option) \<Rightarrow> int \<Rightarrow> SEXP \<Rightarrow> ('j interpreter, unit) prog" where
  "execute_result_block parse execution_count result =
     bindE (liftE (VECTOR_ELT result 0)) (\<lambda>data_sexp.
     bindE (liftE (VECTOR_ELT result 1)) (\<lambda>metadata_sexp.
     bindE (liftE (STRING_ELT data_sexp 0)) (\<lambda>data_text.
     bindE (nl_json_parse parse data_text) (\<lambda>data.
     bindE (liftE (STRING_ELT metadata_sexp 0)) (\<lambda>metadata_text.
     bindE (nl_json_parse parse metadata_text) (\<lambda>metadata.
     publish_execution_result execution_count data metadata))))))"

text \<open>
  \<^verbatim>\<open>execute_request_impl\<close>: \<open>hera\<close> is the companion library behind
  \<^verbatim>\<open>r::invoke_hera_fn\<close>, \<open>parse\<close> is \<^verbatim>\<open>nl::json::parse\<close>. The first block does not end
  in a \<^verbatim>\<open>return\<close>, so control goes on to the second test and to the final
  \<^verbatim>\<open>UNPROTECT(3)\<close> and \<^verbatim>\<open>cb\<close>.
\<close>

definition execute_request_impl ::
  "(string \<Rightarrow> 'j option) \<Rightarrow> (string \<Rightarrow> SEXP list \<Rightarrow> SEXP outcome) \<Rightarrow>
   int \<Rightarrow> string \<Rightarrow> execute_request_config \<Rightarrow> ('j interpreter, unit) prog" where
  "execute_request_impl parse hera execution_count code config =
     bindE (if store_history config then store_inputs 0 execution_count code
            else returnE ()) (\<lambda>_.
     bindE (PROTECT (Rf_mkString code)) (\<lambda>code_sexp.
     bindE (PROTECT (Rf_ScalarInteger execution_count)) (\<lambda>execution_counter_sexp.
     bindE (PROTECT (Rf_ScalarLogical (silent config))) (\<lambda>silent_sexp.
     bindE (invoke_hera_fn hera ''execute'' [code_sexp, execution_counter_sexp, silent_sexp]) (\<lambda>result.
     bindE (if Rf_inherits result ''error_reply'' then execute_error_block result
            else returnE ()) (\<lambda>_.
     bindE (if Rf_inherits result ''execution_result''
            then execute_result_block parse execution_count result
            else returnE ()) (\<lambda>_.
     bindE (UNPROTECT 3) (\<lambda>_.
     cb create_successful_reply))))))))"

subsection \<open>Configure\<close>

text \<open>
  \<^verbatim>\<open>configure_impl\<close>: \<open>eval\<close> is \<^verbatim>\<open>Rf_eval\<close> in the global environment. The body of
  the test on the result is empty in the source (a comment only).
\<close>

definition configure_impl :: "(LANGSXP \<Rightarrow> SEXP outcome) \<Rightarrow> ('j interpreter, unit) prog" where
  "configure_impl eval =
     (let sym_library = ''require'' in
      bindE (PROTECT (Rf_mkString ''hera'')) (\<lambda>str_hera.
      let sym_quietly = ''quietly'' in
      bindE (PROTECT (r_call sym_library [str_hera, Rf_ScalarLogical True])) (\<lambda>call0.
      bindE (liftE (SET_TAG_CDDR call0 sym_quietly)) (\<lambda>call_library_hera.
      bindE (bindE (call_native (eval call_library_hera)) PROTECT) (\<lambda>out.
      bindE (liftE (LOGICAL_ELT out 0)) (\<lambda>loaded.
      bindE (if loaded = 0 then returnE () else returnE ()) (\<lambda>_.
      UNPROTECT 3)))))))"

subsection \<open>Completeness Classifier\<close>

datatype ParseStatus = PARSE_NULL | PARSE_OK | PARSE_INCOMPLETE | PARSE_ERROR | PARSE_EOF

text \<open>
  The two callbacks handed to \<^verbatim>\<open>R_tryCatchError\<close> receive the same pointer \<open>code\<close>
  and overwrite element 0 of that object; they are functions of the object, returning it
  updated. \<open>parser\<close> is \<^verbatim>\<open>R_ParseVector\<close>, which sets a status or raises.
\<close>

definition is_complete_body :: "(SEXP \<Rightarrow> ParseStatus outcome) \<Rightarrow> (SEXP, SEXP) prog" where
  "is_complete_body parser code =
     (case parser code of
        Raised \<Rightarrow> (Inl R_error, code)
      | Returned status \<Rightarrow>
          (case SET_STRING_ELT code 0
                  (case status of
                     PARSE_INCOMPLETE \<Rightarrow> ''incomplete''
                   | PARSE_ERROR \<Rightarrow> ''invalid''
                   | _ \<Rightarrow> ''complete'') of
             Inl e \<Rightarrow> (Inl e, code)
           | Inr code' \<Rightarrow> (Inr NilValue, code')))"

definition is_complete_handler :: "(SEXP, SEXP) prog" where
  "is_complete_handler code =
     (case SET_STRING_ELT code 0 ''invalid'' of
        Inl e \<Rightarrow> (Inl e, code)
      | Inr code' \<Rightarrow> (Inr NilValue, code'))"

text \<open>
  \<^verbatim>\<open>R_tryCatchError(body, bdata, handler, hdata)\<close> with \<open>bdata = hdata\<close>: the handler
  runs when the body raises a runtime error, on the object as the body left it.
\<close>

definition R_tryCatchError :: "('s, 'a) prog \<Rightarrow> ('s, 'a) prog \<Rightarrow> ('s, 'a) prog" where
  "R_tryCatchError body handler data =
     (case body data of
        (Inl R_error, data') \<Rightarrow> handler data'
      | r \<Rightarrow> r)"

definition is_complete_request_impl ::
  "(SEXP \<Rightarrow> ParseStatus outcome) \<Rightarrow> string \<Rightarrow> ('j interpreter, 'j reply) prog" where
  "is_complete_request_impl parser code_text =
     bindE (PROTECT (Rf_mkString code_text)) (\<lambda>code0.
     (case R_tryCatchError (is_complete_body parser) is_complete_handler code0 of
        (Inl e, code) \<Rightarrow> throwE e
      | (Inr _, code) \<Rightarrow>
          bindE (liftE (STRING_ELT code 0)) (\<lambda>status.
          let result = create_is_complete_reply status [] in
          bindE (UNPROTECT 1) (\<lambda>_.
          returnE result))))"

subsection \<open>Complete\<close>

text \<open>
  \<^verbatim>\<open>json_from_character_vector\<close>: a vector of \<open>n\<close> empty strings, filled by index.
\<close>

function fill_loop :: "SEXP \<Rightarrow> nat \<Rightarrow> nat \<Rightarrow> string list \<Rightarrow> exn + string list" where
  "fill_loop x i n vec =
     (if i < n then
        (case STRING_ELT x i of
           Inl e \<Rightarrow> Inl e
         | Inr c \<Rightarrow> fill_loop x (i + 1) n (vec[i := c]))
      else Inr vec)"
  by pat_completeness auto
termination
  by (relation "measure (\<lambda>(x, i, n, vec). n - i)") auto

declare fill_loop.simps [simp del]

definition json_from_character_vector :: "SEXP \<Rightarrow> exn + 'j json" where
  "json_from_character_vector x =
     (let n = XLENGTH x;
          vec = replicate n []
      in case fill_loop x 0 n vec of
           Inl e \<Rightarrow> Inl e
         | Inr vec' \<Rightarrow> Inr (json_strings vec'))"

definition complete_request_impl ::
  "(string \<Rightarrow> SEXP list \<Rightarrow> SEXP outcome) \<Rightarrow> string \<Rightarrow> int \<Rightarrow> ('j interpreter, 'j reply) prog" where
  "complete_request_impl hera code cursor_pos =
     bindE (PROTECT (Rf_mkString code)) (\<lambda>code_sexp.
     bindE (PROTECT (Rf_ScalarInteger cursor_pos)) (\<lambda>cursor_pos_sexp.
     bindE (bindE (invoke_hera_fn hera ''complete'' [code_sexp, cursor_pos_sexp]) PROTECT) (\<lambda>result.
     bindE (liftE (VECTOR_ELT result 0)) (\<lambda>matches_sexp.
     bindE (liftE (json_from_character_vector matches_sexp)) (\<lambda>matches.
     bindE (liftE (VECTOR_ELT result 1)) (\<lambda>span_start.
     bindE (liftE (INTEGER_ELT span_start 0)) (\<lambda>cursor_start.
     bindE (liftE (VECTOR_ELT result 1)) (\<lambda>span_end.
     bindE (liftE (INTEGER_ELT span_end 1)) (\<lambda>cursor_end.
     let reply = create_complete_reply matches cursor_start cursor_end in
     bindE (UNPROTECT 3) (\<lambda>_.
     returnE reply))))))))))"

subsection \<open>Inspect\<close>

text \<open>
  \<^verbatim>\<open>inspect_request_impl\<close>: \<^verbatim>\<open>bool found = LOGICAL_ELT(...)\<close> is true for every
  non-zero value. \<^verbatim>\<open>create_inspect_reply(false)\<close> takes the helper's default payload,
  the empty object.
\<close>

definition inspect_request_impl ::
  "(string \<Rightarrow> 'j option) \<Rightarrow> (string \<Rightarrow> SEXP list \<Rightarrow> SEXP outcome) \<Rightarrow>
   string \<Rightarrow> int \<Rightarrow> int \<Rightarrow> ('j interpreter, 'j reply) prog" where
  "inspect_request_impl parse hera code cursor_pos detail_level =
     bindE (PROTECT (Rf_mkString code)) (\<lambda>code_sexp.
     bindE (PROTECT (Rf_ScalarInteger cursor_pos)) (\<lambda>cursor_pos_sexp.
     bindE (bindE (invoke_hera_fn hera ''inspect'' [code_sexp, cursor_pos_sexp]) PROTECT) (\<lambda>result.
     bindE (liftE (VECTOR_ELT result 0)) (\<lambda>found_sexp.
     bindE (liftE (LOGICAL_ELT found_sexp 0)) (\<lambda>found_value.
     let found = (found_value \<noteq> 0) in
     if \<not> found then
       bindE (UNPROTECT 3) (\<lambda>_.
       returnE (create_inspect_reply False json_object))
     else
       bindE (liftE (VECTOR_ELT result 1)) (\<lambda>data_sexp.
       bindE (liftE (STRING_ELT data_sexp 0)) (\<lambda>data_text.
       bindE (nl_json_parse parse data_text) (\<lambda>data.
       bindE (UNPROTECT 3) (\<lambda>_.
       returnE (create_inspect_reply found data))))))))))"

section \<open>The companion library's execute entry point\<close>

text \<open>
  Modelled from the spec: the execute entry point of the companion library, the
  guest-side code that \<^verbatim>\<open>r::invoke_hera_fn("execute", ...)\<close> calls and that is not
  among the sources. The spec gives its signature,
  \<^verbatim>\<open>execute(code, execution_count, silent) -> NativeResult\<close>, the shapes of its
  results (an error reply with message, kind and trace lines; an execution result with a
  data payload and a metadata payload) and, for a request with \<^verbatim>\<open>silent = true\<close>, that
  no execution result comes of an evaluation that succeeds with a visible value. What the
  guest language makes of the code is outside the spec: it is the parameter \<open>evaluate\<close>.
  Where the library has neither an error nor an execution result to return, it returns
  \<^verbatim>\<open>R_NilValue\<close>, a result with neither tag. The other entry points are not modelled
  and raise.
\<close>

datatype guest_outcome =
    Guest_error string string "string list"
  | Visible_value string string
  | No_visible_value

definition hera_execute :: "(string \<Rightarrow> int \<Rightarrow> guest_outcome) \<Rightarrow> SEXP list \<Rightarrow> SEXP outcome" where
  "hera_execute evaluate args =
     (case args of
        [code_sexp, execution_count_sexp, silent_sexp] \<Rightarrow>
          (case (STRING_ELT code_sexp 0, INTEGER_ELT execution_count_sexp 0,
                 LOGICAL_ELT silent_sexp 0) of
             (Inr code, Inr execution_count, Inr silent_flag) \<Rightarrow>
               (case evaluate code execution_count of
                  Guest_error evalue ename trace \<Rightarrow>
                    Returned (VECSXP [''error_reply'']
                                [STRSXP [] [evalue], STRSXP [] [ename], STRSXP [] trace])
                | Visible_value data metadata \<Rightarrow>
                    if silent_flag \<noteq> 0 then Returned NilValue
                    else Returned (VECSXP [''execution_result'']
                                     [STRSXP [] [data], STRSXP [] [metadata]])
                | No_visible_value \<Rightarrow> Returned NilValue)
           | _ \<Rightarrow> Raised)
      | _ \<Rightarrow> Raised)"

definition hera_spec ::
  "(string \<Rightarrow> int \<Rightarrow> guest_outcome) \<Rightarrow> string \<Rightarrow> SEXP list \<Rightarrow> SEXP outcome" where
  "hera_spec evaluate f args = (if f = ''execute'' then hera_execute evaluate args else Raised)"

section \<open>Concrete requests\<close>

text \<open>
  Inputs for the closed evaluations below: an idle interpreter; a companion library, an
  evaluator and a parser with a given outcome; native results of the execute, complete and
  inspect entry points; a guest evaluation that succeeds with a visible value; a client
  input of 4096 characters; and the two facts about
  \<^verbatim>\<open>nl::json::parse\<close> that the evaluations use (it accepts the text \<^verbatim>\<open>{}\<close> and
  throws on the empty text), as a table.
\<close>

definition idle :: "unit interpreter" where
  "idle = \<lparr>R_PPStackTop = 0, published = [], capture_stream = [], history = []\<rparr>"

definition hera_returning :: "SEXP \<Rightarrow> string \<Rightarrow> SEXP list \<Rightarrow> SEXP outcome" where
  "hera_returning r f args = Returned r"

definition parse_table :: "string \<Rightarrow> unit option" where
  "parse_table text = (if text = ''{}'' then Some () else None)"

definition error_result :: SEXP where
  "error_result =
     VECSXP [''error_reply'']
       [STRSXP [] [''boom''], STRSXP [] [''simpleError''], STRSXP [] [''f()'', ''g()'']]"

definition visible_result :: SEXP where
  "visible_result = VECSXP [''execution_result''] [STRSXP [] [''{}''], STRSXP [] [''{}'']]"

definition unparsable_result :: SEXP where
  "unparsable_result = VECSXP [''execution_result''] [STRSXP [] [[]], STRSXP [] [''{}'']]"

definition request_config :: "bool \<Rightarrow> execute_request_config" where
  "request_config quiet = \<lparr>silent = quiet, store_history = False, allow_stdin = True\<rparr>"

definition eval_returning :: "SEXP \<Rightarrow> LANGSXP \<Rightarrow> SEXP outcome" where
  "eval_returning r call = Returned r"

definition parser_reporting :: "ParseStatus outcome \<Rightarrow> SEXP \<Rightarrow> ParseStatus outcome" where
  "parser_reporting r code = r"

definition long_input :: "string \<Rightarrow> bool \<Rightarrow> string" where
  "long_input prompt password = replicate 4096 (CHR ''a'')"

definition completion_result :: SEXP where
  "completion_result = VECSXP [] [STRSXP [] [''print'', ''printf''], INTSXP [] [0, 3]]"

definition not_found_result :: SEXP where
  "not_found_result = VECSXP [] [LGLSXP [] [0]]"

definition found_result :: SEXP where
  "found_result = VECSXP [] [LGLSXP [] [1], STRSXP [] [''{}'']]"

definition unparsable_found_result :: SEXP where
  "unparsable_found_result = VECSXP [] [LGLSXP [] [1], STRSXP [] [[]]]"

definition evaluate_visible :: "string \<Rightarrow> int \<Rightarrow> guest_outcome" where
  "evaluate_visible code execution_count = Visible_value ''{}'' ''{}''"

section \<open>Theorems\<close>

lemmas prog_defs = returnE_def throwE_def bindE_def liftE_def PROTECT_def UNPROTECT_def
  call_native_def invoke_hera_fn_def nl_json_parse_def publish_def publish_stream_def
  publish_execution_error_def publish_execution_result_def cb_def store_inputs_def

lemmas native_defs = Rf_inherits_def Rf_mkString_def Rf_ScalarInteger_def Rf_ScalarLogical_def

lemmas fixture_defs = idle_def hera_returning_def parse_table_def error_result_def
  visible_result_def unparsable_result_def request_config_def eval_returning_def
  parser_reporting_def long_input_def completion_result_def not_found_result_def
  found_result_def unparsable_found_result_def evaluate_visible_def

subsection \<open>The two loops\<close>

lemma trace_back_loop_STRSXP:
  "i \<le> length xs \<Longrightarrow>
   trace_back_loop (STRSXP c xs) i (length xs) acc = Inr (acc @ drop i xs)"
proof (induction "length xs - i" arbitrary: i acc)
  case 0
  then show ?case by (simp add: trace_back_loop.simps)
next
  case (Suc k)
  then have "i < length xs" by simp
  moreover have "trace_back_loop (STRSXP c xs) (i + 1) (length xs) (acc @ [xs ! i])
                 = Inr ((acc @ [xs ! i]) @ drop (i + 1) xs)"
    using Suc by (intro Suc.hyps(1)) auto
  ultimately show ?case
    by (subst trace_back_loop.simps) (simp add: Cons_nth_drop_Suc)
qed

lemma fill_loop_STRSXP:
  "length vec = length xs \<Longrightarrow> i \<le> length xs \<Longrightarrow>
   fill_loop (STRSXP c xs) i (length xs) vec = Inr (take i vec @ drop i xs)"
proof (induction "length xs - i" arbitrary: i vec)
  case 0
  then show ?case by (simp add: fill_loop.simps)
next
  case (Suc k)
  then have lt: "i < length xs" by simp
  have "fill_loop (STRSXP c xs) (i + 1) (length xs) (vec[i := xs ! i])
        = Inr (take (i + 1) (vec[i := xs ! i]) @ drop (i + 1) xs)"
    using Suc by (intro Suc.hyps(1)) auto
  moreover have "take (i + 1) (vec[i := xs ! i]) @ drop (i + 1) xs = take i vec @ drop i xs"
    using lt Suc.prems(1) by (simp add: take_Suc_conv_app_nth Cons_nth_drop_Suc)
  ultimately show ?case
    using lt by (subst fill_loop.simps) simp
qed

lemma json_from_character_vector_STRSXP:
  "json_from_character_vector (STRSXP c xs) = Inr (json_strings xs)"
  using fill_loop_STRSXP [of "replicate (length xs) []" xs 0 c]
  by (simp add: json_from_character_vector_def)

subsection \<open>What each block publishes and protects\<close>

lemma execution_results_append:
  "execution_results (xs @ ys) = execution_results xs @ execution_results ys"
  by (induction xs rule: execution_results.induct) auto

lemma execute_result_block_top:
  "execute_result_block parse n r s = (x, s') \<Longrightarrow> R_PPStackTop s' = R_PPStackTop s"
  by (auto simp: execute_result_block_def prog_defs
      split: prod.splits sum.splits if_splits option.splits)

lemma execute_result_block_appends:
  "execute_result_block parse n r s = (x, s') \<Longrightarrow> \<exists>rest. published s' = published s @ rest"
  by (auto simp: execute_result_block_def prog_defs
      split: prod.splits sum.splits if_splits option.splits)

lemma execute_error_block_well_formed:
  "execute_error_block
     (VECSXP cls (STRSXP c1 (evalue # r1) # STRSXP c2 (ename # r2) # STRSXP c3 trace # others)) s
   = (Inr (), s\<lparr>R_PPStackTop := R_PPStackTop s - 3,
                published := published s @ [Execution_error evalue ename trace,
                                            Reply (create_error_reply evalue ename trace)]\<rparr>)"
  using trace_back_loop_STRSXP [of 0 trace c3 "[]"]
  by (simp add: execute_error_block_def prog_defs)

lemma execute_balanced:
  "execute_request_impl parse hera n code config s = (Inr u, s') \<Longrightarrow>
   hera ''execute'' [Rf_mkString code, Rf_ScalarInteger n, Rf_ScalarLogical (silent config)]
     = Returned r \<Longrightarrow>
   \<not> Rf_inherits r ''error_reply'' \<Longrightarrow> R_PPStackTop s' = R_PPStackTop s"
  by (auto simp: execute_request_impl_def prog_defs
      split: prod.splits sum.splits if_splits dest!: execute_result_block_top)

lemma execute_parse_error_top:
  "execute_request_impl parse hera n code config s = (Inl json_parse_error, s') \<Longrightarrow>
   hera ''execute'' [Rf_mkString code, Rf_ScalarInteger n, Rf_ScalarLogical (silent config)]
     = Returned r \<Longrightarrow>
   \<not> Rf_inherits r ''error_reply'' \<Longrightarrow> R_PPStackTop s' = R_PPStackTop s + 3"
  by (auto simp: execute_request_impl_def prog_defs
      split: prod.splits sum.splits if_splits dest!: execute_result_block_top)

lemma is_complete_returns:
  "\<exists>tag \<in> {''complete'', ''incomplete'', ''invalid''}.
     is_complete_request_impl parser code s = (Inr (create_is_complete_reply tag []), s)"
  by (auto simp: is_complete_request_impl_def is_complete_body_def is_complete_handler_def
      R_tryCatchError_def Rf_mkString_def prog_defs
      split: prod.splits sum.splits outcome.splits ParseStatus.splits exn.splits)

lemma complete_balanced:
  "complete_request_impl hera code cursor_pos s = (Inr reply, s') \<Longrightarrow>
   R_PPStackTop s' = R_PPStackTop s"
  by (auto simp: complete_request_impl_def prog_defs Let_def
      split: prod.splits sum.splits outcome.splits if_splits)

lemma inspect_balanced:
  "inspect_request_impl parse hera code cursor_pos detail_level s = (Inr reply, s') \<Longrightarrow>
   R_PPStackTop s' = R_PPStackTop s"
  by (auto simp: inspect_request_impl_def prog_defs Let_def
      split: prod.splits sum.splits outcome.splits if_splits option.splits)

lemma inspect_parse_error_top:
  "inspect_request_impl parse hera code cursor_pos detail_level s = (Inl json_parse_error, s') \<Longrightarrow>
   R_PPStackTop s' = R_PPStackTop s + 3"
  by (auto simp: inspect_request_impl_def prog_defs Let_def
      split: prod.splits sum.splits outcome.splits if_splits option.splits)

subsection \<open>Request Bridge: replies and the protection stack\<close>

text \<open>
  C1. The claim is that every request ends in exactly one terminal reply, also an Execute
  request whose native result is an error reply. At such a request the reply callback
  runs twice: the error block sends the error reply and does not return, so the
  successful reply follows it, after a second \<^verbatim>\<open>UNPROTECT(3)\<close> that leaves the
  protection stack three entries below where the request found it.
\<close>

theorem execute_error_reply_sends_two_replies:
  "replies (published (snd (execute_request_impl parse_table (hera_returning error_result)
       1 ''stop()'' (request_config False) idle)))
     = [create_error_reply ''boom'' ''simpleError'' [''f()'', ''g()''], create_successful_reply]
   \<and> execute_request_impl parse_table (hera_returning error_result)
       1 ''stop()'' (request_config False) idle
     = (Inr (), idle\<lparr>R_PPStackTop := - 3,
                     published := [Execution_error ''boom'' ''simpleError'' [''f()'', ''g()''],
                                   Reply (create_error_reply ''boom'' ''simpleError'' [''f()'', ''g()'']),
                                   Reply create_successful_reply]\<rparr>)"
  by (simp add: execute_request_impl_def execute_error_block_well_formed prog_defs native_defs
      fixture_defs)

text \<open>
  C2, as the code has it. Each request handler leaves the protection stack at the depth
  it found whenever it returns normally: Execute for every native result that is not an
  error reply, IsComplete for every fragment (it always returns, the parser's error being
  caught), Complete and Inspect for every native result. Nothing releases the
  acquisitions when \<^verbatim>\<open>nl::json::parse\<close> throws: Execute (on a result that is not an
  error reply) and Inspect are then left with their three acquisitions on the stack. The
  Execute path of an error reply is not covered here.
\<close>

theorem handlers_balanced_on_normal_return:
  "(execute_request_impl parse hera n code config s = (Inr u, s1) \<and>
    hera ''execute'' [Rf_mkString code, Rf_ScalarInteger n, Rf_ScalarLogical (silent config)]
      = Returned r \<and>
    \<not> Rf_inherits r ''error_reply''
      \<longrightarrow> R_PPStackTop s1 = R_PPStackTop s)
   \<and> (\<exists>reply s2. is_complete_request_impl parser code s = (Inr reply, s2) \<and>
         R_PPStackTop s2 = R_PPStackTop s)
   \<and> (complete_request_impl hera code cursor_pos s = (Inr reply3, s3)
         \<longrightarrow> R_PPStackTop s3 = R_PPStackTop s)
   \<and> (inspect_request_impl parse hera code cursor_pos detail_level s = (Inr reply4, s4)
         \<longrightarrow> R_PPStackTop s4 = R_PPStackTop s)
   \<and> (execute_request_impl parse hera n code config s = (Inl json_parse_error, s5) \<and>
      hera ''execute'' [Rf_mkString code, Rf_ScalarInteger n, Rf_ScalarLogical (silent config)]
        = Returned r \<and>
      \<not> Rf_inherits r ''error_reply''
        \<longrightarrow> R_PPStackTop s5 = R_PPStackTop s + 3)
   \<and> (inspect_request_impl parse hera code cursor_pos detail_level s = (Inl json_parse_error, s6)
         \<longrightarrow> R_PPStackTop s6 = R_PPStackTop s + 3)"
proof (intro conjI impI)
  assume "execute_request_impl parse hera n code config s = (Inr u, s1) \<and>
    hera ''execute'' [Rf_mkString code, Rf_ScalarInteger n, Rf_ScalarLogical (silent config)]
      = Returned r \<and> \<not> Rf_inherits r ''error_reply''"
  then show "R_PPStackTop s1 = R_PPStackTop s"
    using execute_balanced by blast
next
  show "\<exists>reply s2. is_complete_request_impl parser code s = (Inr reply, s2) \<and>
         R_PPStackTop s2 = R_PPStackTop s"
    using is_complete_returns [of parser code s] by blast
next
  assume "complete_request_impl hera code cursor_pos s = (Inr reply3, s3)"
  then show "R_PPStackTop s3 = R_PPStackTop s"
    by (rule complete_balanced)
next
  assume "inspect_request_impl parse hera code cursor_pos detail_level s = (Inr reply4, s4)"
  then show "R_PPStackTop s4 = R_PPStackTop s"
    by (rule inspect_balanced)
next
  assume "execute_request_impl parse hera n code config s = (Inl json_parse_error, s5) \<and>
    hera ''execute'' [Rf_mkString code, Rf_ScalarInteger n, Rf_ScalarLogical (silent config)]
      = Returned r \<and> \<not> Rf_inherits r ''error_reply''"
  then show "R_PPStackTop s5 = R_PPStackTop s + 3"
    using execute_parse_error_top by blast
next
  assume "inspect_request_impl parse hera code cursor_pos detail_level s
            = (Inl json_parse_error, s6)"
  then show "R_PPStackTop s6 = R_PPStackTop s + 3"
    by (rule inspect_parse_error_top)
qed

text \<open>
  C2, a concrete request on each handler: an Execute request with a visible result, a
  completion and an inspection return normally and leave the depth at 0; an Execute
  request and an inspection whose payload is the empty text leave it at 3.
\<close>

theorem handlers_balanced_witness:
  "execute_request_impl parse_table (hera_returning visible_result) 1 ''1 + 1''
       (request_config False) idle
     = (Inr (), idle\<lparr>published := [Execution_result 1 (json_parsed ()) (json_parsed ()),
                                   Reply create_successful_reply]\<rparr>)
   \<and> \<not> Rf_inherits visible_result ''error_reply''
   \<and> complete_request_impl (hera_returning completion_result) ''pri'' 3 idle
     = (Inr (create_complete_reply (json_strings [''print'', ''printf'']) 0 3), idle)
   \<and> inspect_request_impl parse_table (hera_returning found_result) ''print'' 5 0 idle
     = (Inr (create_inspect_reply True (json_parsed ())), idle)
   \<and> R_PPStackTop (idle\<lparr>published := [Execution_result 1 (json_parsed ()) (json_parsed ()),
                                       Reply create_successful_reply]\<rparr>) = R_PPStackTop idle
   \<and> \<not> Rf_inherits unparsable_result ''error_reply''
   \<and> execute_request_impl parse_table (hera_returning unparsable_result) 1 ''1 + 1''
       (request_config False) idle
     = (Inl json_parse_error, idle\<lparr>R_PPStackTop := 3\<rparr>)
   \<and> inspect_request_impl parse_table (hera_returning unparsable_found_result) ''print'' 5 0 idle
     = (Inl json_parse_error, idle\<lparr>R_PPStackTop := 3\<rparr>)
   \<and> R_PPStackTop (idle\<lparr>R_PPStackTop := 3\<rparr>) = R_PPStackTop idle + 3"
proof -
  have e: "execute_request_impl parse_table (hera_returning visible_result) 1 ''1 + 1''
       (request_config False) idle
     = (Inr (), idle\<lparr>published := [Execution_result 1 (json_parsed ()) (json_parsed ()),
                                   Reply create_successful_reply]\<rparr>)"
    by (simp add: execute_request_impl_def execute_result_block_def prog_defs native_defs
        fixture_defs)
  have h: "hera_returning visible_result ''execute''
       [Rf_mkString ''1 + 1'', Rf_ScalarInteger 1, Rf_ScalarLogical (silent (request_config False))]
     = Returned visible_result"
    by (simp add: hera_returning_def)
  have n: "\<not> Rf_inherits visible_result ''error_reply''"
    by (simp add: Rf_inherits_def visible_result_def)
  have c: "complete_request_impl (hera_returning completion_result) ''pri'' 3 idle
     = (Inr (create_complete_reply (json_strings [''print'', ''printf'']) 0 3), idle)"
    by (simp add: complete_request_impl_def json_from_character_vector_STRSXP prog_defs
        native_defs fixture_defs)
  have i: "inspect_request_impl parse_table (hera_returning found_result) ''print'' 5 0 idle
     = (Inr (create_inspect_reply True (json_parsed ())), idle)"
    by (simp add: inspect_request_impl_def prog_defs native_defs fixture_defs)
  have h': "hera_returning unparsable_result ''execute''
       [Rf_mkString ''1 + 1'', Rf_ScalarInteger 1, Rf_ScalarLogical (silent (request_config False))]
     = Returned unparsable_result"
    by (simp add: hera_returning_def)
  have n': "\<not> Rf_inherits unparsable_result ''error_reply''"
    by (simp add: Rf_inherits_def unparsable_result_def)
  have e': "execute_request_impl parse_table (hera_returning unparsable_result) 1 ''1 + 1''
       (request_config False) idle
     = (Inl json_parse_error, idle\<lparr>R_PPStackTop := 3\<rparr>)"
    by (simp add: execute_request_impl_def execute_result_block_def prog_defs native_defs
        fixture_defs)
  have i': "inspect_request_impl parse_table (hera_returning unparsable_found_result)
       ''print'' 5 0 idle
     = (Inl json_parse_error, idle\<lparr>R_PPStackTop := 3\<rparr>)"
    by (simp add: inspect_request_impl_def prog_defs native_defs fixture_defs)
  have "R_PPStackTop (idle\<lparr>published := [Execution_result 1 (json_parsed ()) (json_parsed ()),
                                       Reply create_successful_reply]\<rparr>) = R_PPStackTop idle"
    using handlers_balanced_on_normal_return
      [where parse = parse_table and hera = "hera_returning visible_result" and n = 1
         and code = "''1 + 1''" and config = "request_config False" and s = idle
         and r = visible_result and u = "()"
         and ?s1.0 = "idle\<lparr>published := [Execution_result 1 (json_parsed ()) (json_parsed ()),
                                       Reply create_successful_reply]\<rparr>"]
      e h n by blast
  moreover have "R_PPStackTop (idle\<lparr>R_PPStackTop := 3\<rparr>) = R_PPStackTop idle + 3"
    using handlers_balanced_on_normal_return
      [where parse = parse_table and hera = "hera_returning unparsable_result" and n = 1
         and code = "''1 + 1''" and config = "request_config False" and s = idle
         and r = unparsable_result and ?s5.0 = "idle\<lparr>R_PPStackTop := 3\<rparr>"]
      e' h' n' by blast
  ultimately show ?thesis
    using e n c i n' e' i' by blast
qed

text \<open>
  C2 as stated fails on an exit by exception. The companion library returns an execution
  result whose data payload is the empty text; \<^verbatim>\<open>nl::json::parse\<close> throws, and the
  exception leaves \<^verbatim>\<open>execute_request_impl\<close> before its \<^verbatim>\<open>UNPROTECT(3)\<close>: three
  acquisitions, no release.
\<close>

theorem execute_parse_error_leaves_three_protected:
  "execute_request_impl parse_table (hera_returning unparsable_result) 1 ''1 + 1''
       (request_config False) idle
     = (Inl json_parse_error, idle\<lparr>R_PPStackTop := 3\<rparr>)
   \<and> R_PPStackTop idle = 0"
  by (simp add: execute_request_impl_def execute_result_block_def prog_defs native_defs
      fixture_defs)

subsection \<open>Completeness Classifier\<close>

text \<open>
  C3. For every source fragment and every behaviour of the parser on it, the classifier
  returns a reply (never an exception) and leaves the bridge's state as it was: the tag is
  \<open>incomplete\<close> when the parser reports that it needs more tokens, \<open>invalid\<close> when it
  reports a syntax error, \<open>complete\<close> when it succeeds, and \<open>invalid\<close> when it
  raises an error instead of returning a status. The reply carries one of these three
  tags and an empty hint.
\<close>

theorem is_complete_classification:
  "(parser (Rf_mkString code) = Returned PARSE_INCOMPLETE \<longrightarrow>
      is_complete_request_impl parser code s
        = (Inr (create_is_complete_reply ''incomplete'' []), s))
   \<and> (parser (Rf_mkString code) = Returned PARSE_ERROR \<longrightarrow>
      is_complete_request_impl parser code s
        = (Inr (create_is_complete_reply ''invalid'' []), s))
   \<and> (parser (Rf_mkString code) = Returned PARSE_OK \<longrightarrow>
      is_complete_request_impl parser code s
        = (Inr (create_is_complete_reply ''complete'' []), s))
   \<and> (parser (Rf_mkString code) = Raised \<longrightarrow>
      is_complete_request_impl parser code s
        = (Inr (create_is_complete_reply ''invalid'' []), s))
   \<and> (\<exists>tag \<in> {''complete'', ''incomplete'', ''invalid''}.
        is_complete_request_impl parser code s = (Inr (create_is_complete_reply tag []), s))"
proof (intro conjI impI)
  show "\<exists>tag \<in> {''complete'', ''incomplete'', ''invalid''}.
        is_complete_request_impl parser code s = (Inr (create_is_complete_reply tag []), s)"
    by (rule is_complete_returns)
qed (simp_all add: is_complete_request_impl_def is_complete_body_def is_complete_handler_def
      R_tryCatchError_def Rf_mkString_def prog_defs)

text \<open>C3, on four parsers: one for each status named in the claim and one that raises.\<close>

theorem is_complete_classification_witness:
  "is_complete_request_impl (parser_reporting (Returned PARSE_INCOMPLETE)) ''1 + '' idle
     = (Inr (create_is_complete_reply ''incomplete'' []), idle)
   \<and> is_complete_request_impl (parser_reporting (Returned PARSE_ERROR)) ''1 + )'' idle
     = (Inr (create_is_complete_reply ''invalid'' []), idle)
   \<and> is_complete_request_impl (parser_reporting (Returned PARSE_OK)) ''1 + 1'' idle
     = (Inr (create_is_complete_reply ''complete'' []), idle)
   \<and> is_complete_request_impl (parser_reporting Raised) ''1 + 1'' idle
     = (Inr (create_is_complete_reply ''invalid'' []), idle)"
  using
    is_complete_classification [of "parser_reporting (Returned PARSE_INCOMPLETE)" "''1 + ''" idle]
    is_complete_classification [of "parser_reporting (Returned PARSE_ERROR)" "''1 + )''" idle]
    is_complete_classification [of "parser_reporting (Returned PARSE_OK)" "''1 + 1''" idle]
    is_complete_classification [of "parser_reporting Raised" "''1 + 1''" idle]
  by (simp add: parser_reporting_def)

subsection \<open>Interactive Input Bridge: the buffer\<close>

text \<open>
  C4. The claim is that \<^verbatim>\<open>ReadConsole\<close> never writes at an index outside the
  caller's length bound. With a buffer of 4096 bytes (indices 0 to 4095) and a client
  input of 4096 characters, \<open>size\<close> is 4096 and the line break is stored at index 4096,
  one past the last byte of the buffer, whatever that byte of memory held.
\<close>

theorem ReadConsole_writes_at_length:
  "fst (ReadConsole long_input prompt buffer 4096 addtohistory) 4096 = CHR 0x0A
   \<and> length (long_input prompt False) = 4096"
  by (simp add: ReadConsole_def std_copy_def size_t_of_int_def long_input_def Let_def)

subsection \<open>Request Bridge: configuration\<close>

text \<open>
  C5. The claim is that a failed load of the companion library is surfaced as a fatal
  startup error. When \<^verbatim>\<open>require("hera", quietly = TRUE)\<close> evaluates to \<^verbatim>\<open>FALSE\<close>,
  \<^verbatim>\<open>configure_impl\<close> returns normally with the bridge's state unchanged, exactly as
  it does when the load succeeds: the branch that tests the failure is empty.
\<close>

theorem configure_impl_ignores_load_failure:
  "configure_impl (eval_returning (Rf_ScalarLogical False)) s = (Inr (), s)
   \<and> configure_impl (eval_returning (Rf_ScalarLogical False)) s
     = configure_impl (eval_returning (Rf_ScalarLogical True)) s"
  by (simp add: configure_impl_def r_call_def eval_returning_def prog_defs native_defs)

subsection \<open>Console Redirector\<close>

text \<open>
  C6. For every console write (buffer, length, channel): in publish mode the bridge
  publishes one stream event holding the first \<open>buflen\<close> bytes of the buffer, named
  \<open>stderr\<close> when the channel is 1 and \<open>stdout\<close> for every other channel, and leaves
  the capture buffer alone; in capture mode it publishes nothing, discards a write on
  channel 1 and appends the bytes of a write on any other channel to the capture buffer.
\<close>

theorem console_write_routing:
  "published (WriteConsoleEx buf buflen otype s)
     = published s @ [Stream (if otype = 1 then ''stderr'' else ''stdout'') (take buflen buf)]
   \<and> capture_stream (WriteConsoleEx buf buflen otype s) = capture_stream s
   \<and> published (capture_WriteConsoleEx buf buflen otype s) = published s
   \<and> capture_stream (capture_WriteConsoleEx buf buflen otype s)
     = (if otype = 1 then capture_stream s else capture_stream s @ take buflen buf)"
  by (simp add: WriteConsoleEx_def capture_WriteConsoleEx_def publish_stream_def publish_def)

subsection \<open>Result/Error Codec\<close>

text \<open>
  C7. Decoding a native character vector of any length gives the array of its strings,
  in order (so of the same length). An Execute request whose native result is an error
  reply with message, kind and trace publishes an execution-error event and sends an error
  reply that both carry the native trace, element for element.
\<close>

theorem character_vector_decoded_in_order:
  "json_from_character_vector (STRSXP c xs) = Inr (json_strings xs)
   \<and> (hera ''execute'' [Rf_mkString code, Rf_ScalarInteger n, Rf_ScalarLogical (silent config)]
        = Returned (VECSXP cls (STRSXP c1 (evalue # r1) # STRSXP c2 (ename # r2) #
                              STRSXP c3 trace # others)) \<and>
      ''error_reply'' \<in> set cls \<longrightarrow>
      (\<exists>rest. published (snd (execute_request_impl parse hera n code config s))
         = published s @ [Execution_error evalue ename trace,
                          Reply (create_error_reply evalue ename trace)] @ rest))"
proof (intro conjI impI)
  show "json_from_character_vector (STRSXP c xs) = Inr (json_strings xs)"
    by (rule json_from_character_vector_STRSXP)
next
  let ?r = "VECSXP cls (STRSXP c1 (evalue # r1) # STRSXP c2 (ename # r2) #
                       STRSXP c3 trace # others)"
  assume "hera ''execute'' [Rf_mkString code, Rf_ScalarInteger n, Rf_ScalarLogical (silent config)]
        = Returned ?r \<and> ''error_reply'' \<in> set cls"
  then show "\<exists>rest. published (snd (execute_request_impl parse hera n code config s))
         = published s @ [Execution_error evalue ename trace,
                          Reply (create_error_reply evalue ename trace)] @ rest"
    by (auto simp: execute_request_impl_def execute_error_block_well_formed prog_defs
        Rf_inherits_def split: prod.splits sum.splits dest!: execute_result_block_appends)
qed

text \<open>C7, on the vectors of length 0, 1 and 3 and on an error with a trace of two lines.\<close>

theorem character_vector_decoded_witness:
  "json_from_character_vector (STRSXP [] []) = Inr (json_strings [])
   \<and> json_from_character_vector (STRSXP [] [''a'']) = Inr (json_strings [''a''])
   \<and> json_from_character_vector (STRSXP [] [''b'', ''a'', ''c'']) = Inr (json_strings [''b'', ''a'', ''c''])
   \<and> ''error_reply'' \<in> set [''error_reply'']
   \<and> take 2 (published (snd (execute_request_impl parse_table (hera_returning error_result)
         1 ''stop()'' (request_config False) idle)))
     = [Execution_error ''boom'' ''simpleError'' [''f()'', ''g()''],
        Reply (create_error_reply ''boom'' ''simpleError'' [''f()'', ''g()''])]"
  using
    character_vector_decoded_in_order [where c = "[]" and xs = "[]"
      and hera = "hera_returning error_result" and code = "''stop()''" and n = 1
      and config = "request_config False" and cls = "[''error_reply'']"
      and ?c1.0 = "[]" and evalue = "''boom''" and ?r1.0 = "[]"
      and ?c2.0 = "[]" and ename = "''simpleError''" and ?r2.0 = "[]"
      and ?c3.0 = "[]" and trace = "[''f()'', ''g()'']" and others = "[]" and parse = parse_table and s = idle]
    character_vector_decoded_in_order [where c = "[]" and xs = "[''a'']"
      and hera = "hera_returning visible_result" and cls = "[]"]
    character_vector_decoded_in_order [where c = "[]" and xs = "[''b'', ''a'', ''c'']"
      and hera = "hera_returning visible_result" and cls = "[]"]
  by (auto simp: hera_returning_def error_result_def idle_def)

subsection \<open>Request Bridge: silent requests\<close>

lemma hera_spec_execute:
  "hera_spec evaluate ''execute''
     [Rf_mkString code, Rf_ScalarInteger n, Rf_ScalarLogical quiet]
   = (case evaluate code n of
        Guest_error evalue ename trace \<Rightarrow>
          Returned (VECSXP [''error_reply'']
                      [STRSXP [] [evalue], STRSXP [] [ename], STRSXP [] trace])
      | Visible_value data metadata \<Rightarrow>
          if quiet then Returned NilValue
          else Returned (VECSXP [''execution_result'']
                           [STRSXP [] [data], STRSXP [] [metadata]])
      | No_visible_value \<Rightarrow> Returned NilValue)"
  by (simp add: hera_spec_def hera_execute_def native_defs split: guest_outcome.splits)

text \<open>
  C8. The companion library is the one modelled from the spec, over every guest
  evaluation. For every Execute request with the silent flag set, the bridge publishes no
  execution-result event, whatever the evaluation gives, a visible value included: the
  bridge hands the flag to the library as the third argument of the call, and the library
  then returns no execution result. The same request without the flag, when the
  evaluation succeeds with a visible value whose payloads parse, publishes exactly one
  execution-result event, with the request's execution count and the two payloads.
\<close>

theorem silent_execute_publishes_no_execution_result:
  "(silent config \<longrightarrow>
      execution_results (published (snd (execute_request_impl parse (hera_spec evaluate)
          n code config s)))
        = execution_results (published s))
   \<and> (\<not> silent config \<and> evaluate code n = Visible_value data metadata \<and>
      parse data = Some d \<and> parse metadata = Some m \<longrightarrow>
      execution_results (published (snd (execute_request_impl parse (hera_spec evaluate)
          n code config s)))
        = execution_results (published s) @ [Execution_result n (json_parsed d) (json_parsed m)])"
proof (intro conjI impI)
  assume quiet: "silent config"
  show "execution_results (published (snd (execute_request_impl parse (hera_spec evaluate)
          n code config s)))
        = execution_results (published s)"
  proof (cases "evaluate code n")
    case (Guest_error evalue ename trace)
    then show ?thesis
      by (simp add: execute_request_impl_def invoke_hera_fn_def hera_spec_execute
          execute_error_block_well_formed execution_results_append call_native_def
          returnE_def bindE_def PROTECT_def UNPROTECT_def cb_def publish_def store_inputs_def
          Rf_inherits_def)
  next
    case (Visible_value data metadata)
    with quiet show ?thesis
      by (simp add: execute_request_impl_def invoke_hera_fn_def hera_spec_execute
          execution_results_append call_native_def
          returnE_def bindE_def PROTECT_def UNPROTECT_def cb_def publish_def store_inputs_def
          Rf_inherits_def)
  next
    case No_visible_value
    then show ?thesis
      by (simp add: execute_request_impl_def invoke_hera_fn_def hera_spec_execute
          execution_results_append call_native_def
          returnE_def bindE_def PROTECT_def UNPROTECT_def cb_def publish_def store_inputs_def
          Rf_inherits_def)
  qed
next
  assume "\<not> silent config \<and> evaluate code n = Visible_value data metadata \<and>
      parse data = Some d \<and> parse metadata = Some m"
  then show "execution_results (published (snd (execute_request_impl parse (hera_spec evaluate)
          n code config s)))
        = execution_results (published s) @ [Execution_result n (json_parsed d) (json_parsed m)]"
    by (simp add: execute_request_impl_def execute_result_block_def invoke_hera_fn_def
        hera_spec_execute execution_results_append prog_defs Rf_inherits_def)
qed

text \<open>
  C8, on a guest evaluation that succeeds with a visible value: with the silent flag no
  execution-result event is published, without it the value is.
\<close>

theorem silent_execute_witness:
  "silent (request_config True)
   \<and> execution_results (published (snd (execute_request_impl parse_table
         (hera_spec evaluate_visible) 1 ''1 + 1'' (request_config True) idle))) = []
   \<and> \<not> silent (request_config False)
   \<and> evaluate_visible ''1 + 1'' 1 = Visible_value ''{}'' ''{}''
   \<and> parse_table ''{}'' = Some ()
   \<and> execution_results (published (snd (execute_request_impl parse_table
         (hera_spec evaluate_visible) 1 ''1 + 1'' (request_config False) idle)))
     = [Execution_result 1 (json_parsed ()) (json_parsed ())]"
  using
    silent_execute_publishes_no_execution_result [where config = "request_config True"
      and parse = parse_table and evaluate = evaluate_visible and n = 1
      and code = "''1 + 1''" and s = idle]
    silent_execute_publishes_no_execution_result [where config = "request_config False"
      and parse = parse_table and evaluate = evaluate_visible and n = 1
      and code = "''1 + 1''" and s = idle and data = "''{}''" and metadata = "''{}''"
      and d = "()" and m = "()"]
  by (simp add: request_config_def evaluate_visible_def parse_table_def idle_def)

subsection \<open>Request Bridge: inspection\<close>

text \<open>
  C9. When element 0 of the found flag of the native result is false (zero), Inspect
  returns the negative inspection reply at once: whatever follows the flag in the result,
  also nothing, and whatever the parser would do. When the flag is not zero and the
  payload parses, it returns the positive inspection reply with the parsed payload.
  The bridge's state is as before in both cases.
\<close>

theorem inspect_found_flag:
  "(hera ''inspect'' [Rf_mkString code, Rf_ScalarInteger cursor_pos]
      = Returned (VECSXP cls (LGLSXP c (0 # flags) # rest)) \<longrightarrow>
    inspect_request_impl parse hera code cursor_pos detail_level s
      = (Inr (create_inspect_reply False json_object), s))
   \<and> (hera ''inspect'' [Rf_mkString code, Rf_ScalarInteger cursor_pos]
        = Returned (VECSXP cls (LGLSXP c (flag # flags) # STRSXP c' (payload # texts) # rest)) \<and>
      flag \<noteq> 0 \<and> parse payload = Some d \<longrightarrow>
    inspect_request_impl parse hera code cursor_pos detail_level s
      = (Inr (create_inspect_reply True (json_parsed d)), s))"
  by (simp add: inspect_request_impl_def prog_defs)

text \<open>C9, on a result with the flag false and no payload, and on one with a payload.\<close>

theorem inspect_found_flag_witness:
  "inspect_request_impl parse_table (hera_returning not_found_result) ''nothing'' 7 0 idle
     = (Inr (create_inspect_reply False json_object), idle)
   \<and> inspect_request_impl parse_table (hera_returning found_result) ''print'' 5 0 idle
     = (Inr (create_inspect_reply True (json_parsed ())), idle)"
  using
    inspect_found_flag [where hera = "hera_returning not_found_result" and code = "''nothing''"
      and cursor_pos = 7 and cls = "[]" and c = "[]" and flags = "[]" and rest = "[]"
      and parse = parse_table and detail_level = 0 and s = idle]
    inspect_found_flag [where hera = "hera_returning found_result" and code = "''print''"
      and cursor_pos = 5 and cls = "[]" and c = "[]" and flag = 1 and flags = "[]"
      and c' = "[]" and payload = "''{}''" and texts = "[]" and rest = "[]"
      and parse = parse_table and d = "()" and detail_level = 0 and s = idle]
  by (simp add: hera_returning_def not_found_result_def found_result_def parse_table_def)

subsection \<open>Interactive Input Bridge: the return value\<close>

text \<open>
  C10. For every input round-trip, whatever the client's response, the prompt, the
  buffer and its length, \<^verbatim>\<open>ReadConsole\<close> returns 1 to the runtime: no outcome of the input
  request is reported as a read failure.
\<close>

theorem ReadConsole_returns_1:
  "snd (ReadConsole input prompt buffer len addtohistory) = 1"
  by (simp add: ReadConsole_def Let_def)

end
